theory Spec2Isabelle
  imports Complex_Main
begin

section \<open>Samples and the logger\<close>

text \<open>
  A k6 sample carries a metric (name and type tag) and a float value. The type tag is an
  integer enumeration in k6 with the four named members below; any other integer is a
  value of the type as well, kept here as \<open>OtherType\<close>. Sample values are modelled as
  real numbers: rounding of float64 arithmetic is not represented.
\<close>

datatype MetricType = Counter | Gauge | Trend | Rate | OtherType int

record Metric =
  Name :: string
  Type :: MetricType

record Sample =
  Metric :: Metric
  Value :: real

text \<open>\<open>GetSamples()\<close> of a sample container is the list of its samples.\<close>

type_synonym SampleContainer = "Sample list"

text \<open>
  A logger is the list of entries written to it so far. An entry keeps the level, the
  format string and the arguments of the call (fields given with \<open>WithField\<close> included).
\<close>

datatype Level = InfoLevel | WarnLevel | ErrorLevel

datatype LogArg = ArgMetricType MetricType | ArgInt int | ArgString string

datatype LogEntry = Log Level string "LogArg list"

type_synonym Logger = "LogEntry list"

section \<open>The Prometheus instruments\<close>

text \<open>
  Modelled from the spec: the instruments of the Prometheus client library, which is not
  part of this repository. A counter is its accumulated total and supports only add; a
  gauge is its current value and supports only set; a histogram is the sequence of the
  values observed so far and supports only observe. A new instrument starts at zero, or
  with no observation.
\<close>

type_synonym prom_Counter = real
type_synonym prom_Gauge = real
type_synonym prom_Histogram = "real list"

definition counter_Add :: "prom_Counter \<Rightarrow> real \<Rightarrow> prom_Counter" where
  "counter_Add c v = c + v"

definition gauge_Set :: "prom_Gauge \<Rightarrow> real \<Rightarrow> prom_Gauge" where
  "gauge_Set g v = v"

definition histogram_Observe :: "prom_Histogram \<Rightarrow> real \<Rightarrow> prom_Histogram" where
  "histogram_Observe h v = h @ [v]"

text \<open>
  The struct \<open>builtinMetrics\<close>. The field \<open>HTTPReqFailedCurrent\<close> is declared but no
  constructor call ever fills it, so it stays the nil interface: \<open>None\<close>.
\<close>

record builtinMetrics =
  VUS :: prom_Gauge
  VUSMax :: prom_Gauge
  HTTPReqBlockedCurrent :: prom_Gauge
  HTTPReqConnectingCurrent :: prom_Gauge
  HTTPReqDurationCurrent :: prom_Gauge
  HTTPReqFailedCurrent :: "prom_Gauge option"
  HTTPReqReceivingCurrent :: prom_Gauge
  HTTPReqSendingCurrent :: prom_Gauge
  HTTPReqTLSHandshakingCurrent :: prom_Gauge
  HTTPReqWaitingCurrent :: prom_Gauge
  IterationDurationCurrent :: prom_Gauge
  DataReceived :: prom_Counter
  DataSent :: prom_Counter
  HTTPReqs :: prom_Counter
  Iterations :: prom_Counter
  DroppedIterations :: prom_Counter
  HTTPReqBlocked :: prom_Histogram
  HTTPReqConnecting :: prom_Histogram
  HTTPReqDuration :: prom_Histogram
  HTTPReqReceiving :: prom_Histogram
  HTTPReqSending :: prom_Histogram
  HTTPReqTLSHandshaking :: prom_Histogram
  HTTPReqWaiting :: prom_Histogram
  IterationDuration :: prom_Histogram
  Checks :: prom_Histogram
  HTTPReqFailed :: prom_Histogram

text \<open>
  What the registry holds of a collector: its kind and the options it was made with.
  \<open>NewHistogram\<close> replaces an empty bucket list by the default buckets.
\<close>

datatype CollectorKind = GaugeKind | CounterKind | HistogramKind "real list"

record Collector =
  kind :: CollectorKind
  cNamespace :: string
  cSubsystem :: string
  cName :: string
  cHelp :: string

definition NewGauge :: "string \<Rightarrow> string \<Rightarrow> string \<Rightarrow> string \<Rightarrow> Collector" where
  "NewGauge namespace subsystem name help =
     \<lparr>kind = GaugeKind, cNamespace = namespace, cSubsystem = subsystem, cName = name, cHelp = help\<rparr>"

definition NewCounter :: "string \<Rightarrow> string \<Rightarrow> string \<Rightarrow> string \<Rightarrow> Collector" where
  "NewCounter namespace subsystem name help =
     \<lparr>kind = CounterKind, cNamespace = namespace, cSubsystem = subsystem, cName = name, cHelp = help\<rparr>"

definition ExponentialBuckets :: "real \<Rightarrow> real \<Rightarrow> nat \<Rightarrow> real list" where
  "ExponentialBuckets start factor count = map (\<lambda>i. start * factor ^ i) [0..<count]"

definition NewHistogram :: "string \<Rightarrow> string \<Rightarrow> string \<Rightarrow> string \<Rightarrow> real list \<Rightarrow> Collector" where
  "NewHistogram namespace subsystem name help buckets =
     (let buckets' =
        (if length buckets = 0
         then [1/10, 2/10, 3/10, 4/10, 5/10, 6/10, 7/10, 8/10, 9/10] @ ExponentialBuckets 1 2 16
         else buckets)
      in \<lparr>kind = HistogramKind buckets', cNamespace = namespace, cSubsystem = subsystem,
          cName = name, cHelp = help\<rparr>)"

type_synonym Registry = "Collector list"

type_synonym error = string

record PrometheusAdapter =
  Subsystem :: string
  Namespace :: string
  logger :: Logger
  registry :: Registry
  builtinMetrics :: builtinMetrics

text \<open>The instrument values right after construction.\<close>

definition new_builtinMetrics :: builtinMetrics where
  "new_builtinMetrics =
     \<lparr>VUS = 0, VUSMax = 0, HTTPReqBlockedCurrent = 0, HTTPReqConnectingCurrent = 0,
      HTTPReqDurationCurrent = 0, HTTPReqFailedCurrent = None, HTTPReqReceivingCurrent = 0,
      HTTPReqSendingCurrent = 0, HTTPReqTLSHandshakingCurrent = 0, HTTPReqWaitingCurrent = 0,
      IterationDurationCurrent = 0, DataReceived = 0, DataSent = 0, HTTPReqs = 0,
      Iterations = 0, DroppedIterations = 0, HTTPReqBlocked = [], HTTPReqConnecting = [],
      HTTPReqDuration = [], HTTPReqReceiving = [], HTTPReqSending = [],
      HTTPReqTLSHandshaking = [], HTTPReqWaiting = [], IterationDuration = [], Checks = [],
      HTTPReqFailed = []\<rparr>"

text \<open>
  The slice \<open>metrics\<close> of \<open>NewPrometheusAdapter\<close>, in its order: the collectors handed to
  \<open>registry.Register\<close>. The histogram \<open>iteration_duration\<close> is constructed but is not in
  the slice.
\<close>

definition metrics :: "string \<Rightarrow> string \<Rightarrow> Collector list" where
  "metrics ns sub =
     [NewGauge ns sub ''vus'' ''Current number of active virtual users'',
      NewGauge ns sub ''vus_max'' ''Max possible number of virtual users'',
      NewGauge ns sub ''http_req_blocked_current'' ''Time spent blocked  before initiating the request'',
      NewGauge ns sub ''http_req_connecting_current'' ''Time spent establishing TCP connection'',
      NewGauge ns sub ''http_req_duration_current'' ''Total time for the request'',
      NewGauge ns sub ''http_req_receiving_current'' ''Time spent receiving response data'',
      NewGauge ns sub ''http_req_sending_current'' ''Time spent sending data'',
      NewGauge ns sub ''http_req_tls_handshaking_current'' ''Time spent handshaking TLS session'',
      NewGauge ns sub ''http_req_waiting_current'' ''Time spent waiting for response'',
      NewGauge ns sub ''iteration_duration_current'' ''The time it took to complete one full iteration'',
      NewCounter ns sub ''data_received'' ''The amount of received data'',
      NewCounter ns sub ''data_sent'' ''The amount of data sent'',
      NewCounter ns sub ''http_reqs'' ''How many HTTP requests has k6 generated, in total'',
      NewCounter ns sub ''iterations'' ''The aggregate number of times the VUs in the test have executed'',
      NewCounter ns sub ''dropped_iterations'' ''The number of iterations that could not be started'',
      NewHistogram ns sub ''http_req_blocked'' ''time spent blocked  before initiating the request'' [],
      NewHistogram ns sub ''http_req_connecting'' ''time spent establishing tcp connection'' [],
      NewHistogram ns sub ''http_req_receiving'' ''time spent receiving response data'' [],
      NewHistogram ns sub ''http_req_sending'' ''time spent sending data'' [],
      NewHistogram ns sub ''http_req_tls_handshaking'' ''time spent handshaking tls session'' [],
      NewHistogram ns sub ''http_req_waiting'' ''time spent waiting for response'' [],
      NewHistogram ns sub ''http_req_duration'' ''total time for the request'' [],
      NewHistogram ns sub ''checks'' ''The rate of successful checks'' [],
      NewHistogram ns sub ''http_req_failed'' ''The rate of failed requests'' []]"

text \<open>
  The loop over \<open>metrics\<close>. \<open>Register\<close> is the registry's method: given the collectors
  registered so far and the next one it answers with an error or with nil, and on nil the
  collector has joined the registry. The loop gives the registry as it is left and the
  first error, if any.
\<close>

fun register_loop ::
  "(Registry \<Rightarrow> Collector \<Rightarrow> error option) \<Rightarrow> Registry \<Rightarrow> Collector list \<Rightarrow> Registry \<times> error option"
where
  "register_loop Register reg [] = (reg, None)"
| "register_loop Register reg (collector # rest) =
     (case Register reg collector of
        Some err \<Rightarrow> (reg, Some err)
      | None \<Rightarrow> register_loop Register (reg @ [collector]) rest)"

text \<open>
  \<open>NewPrometheusAdapter\<close> gives the adapter (\<open>None\<close> is the nil pointer) and the state in
  which it leaves the registry it was handed.
\<close>

definition NewPrometheusAdapter ::
  "(Registry \<Rightarrow> Collector \<Rightarrow> error option) \<Rightarrow> Registry \<Rightarrow> Logger \<Rightarrow> string \<Rightarrow> string
     \<Rightarrow> PrometheusAdapter option \<times> Registry"
where
  "NewPrometheusAdapter Register reg lg ns sub =
     (case register_loop Register reg (metrics ns sub) of
        (reg', Some err) \<Rightarrow> (None, reg')
      | (reg', None) \<Rightarrow>
          (Some \<lparr>Subsystem = sub, Namespace = ns, logger = lg, registry = reg',
                 builtinMetrics = new_builtinMetrics\<rparr>, reg'))"

section \<open>Classifying a sample and updating its instrument\<close>

definition handleCounter :: "PrometheusAdapter \<Rightarrow> Sample \<Rightarrow> PrometheusAdapter" where
  "handleCounter a sample =
     (let n = Name (Metric sample); v = Value sample; b = builtinMetrics a in
      if n = ''data_received'' then a\<lparr>builtinMetrics := b\<lparr>DataReceived := counter_Add (DataReceived b) v\<rparr>\<rparr>
      else if n = ''data_sent'' then a\<lparr>builtinMetrics := b\<lparr>DataSent := counter_Add (DataSent b) v\<rparr>\<rparr>
      else if n = ''http_reqs'' then a\<lparr>builtinMetrics := b\<lparr>HTTPReqs := counter_Add (HTTPReqs b) v\<rparr>\<rparr>
      else if n = ''iterations'' then a\<lparr>builtinMetrics := b\<lparr>Iterations := counter_Add (Iterations b) v\<rparr>\<rparr>
      else a)"

definition handleGauge :: "PrometheusAdapter \<Rightarrow> Sample \<Rightarrow> PrometheusAdapter" where
  "handleGauge a sample =
     (let n = Name (Metric sample); v = Value sample; b = builtinMetrics a in
      if n = ''vus'' then a\<lparr>builtinMetrics := b\<lparr>VUS := gauge_Set (VUS b) v\<rparr>\<rparr>
      else if n = ''vus_max'' then a\<lparr>builtinMetrics := b\<lparr>VUSMax := gauge_Set (VUSMax b) v\<rparr>\<rparr>
      else if n = ''http_req_blocked_current''
        then a\<lparr>builtinMetrics := b\<lparr>HTTPReqBlockedCurrent := gauge_Set (HTTPReqBlockedCurrent b) v\<rparr>\<rparr>
      else if n = ''http_req_connecting_current''
        then a\<lparr>builtinMetrics := b\<lparr>HTTPReqConnectingCurrent := gauge_Set (HTTPReqConnectingCurrent b) v\<rparr>\<rparr>
      else if n = ''http_req_duration_current''
        then a\<lparr>builtinMetrics := b\<lparr>HTTPReqDurationCurrent := gauge_Set (HTTPReqDurationCurrent b) v\<rparr>\<rparr>
      else if n = ''http_req_receiving_current''
        then a\<lparr>builtinMetrics := b\<lparr>HTTPReqReceivingCurrent := gauge_Set (HTTPReqReceivingCurrent b) v\<rparr>\<rparr>
      else if n = ''http_req_sending_current''
        then a\<lparr>builtinMetrics := b\<lparr>HTTPReqSendingCurrent := gauge_Set (HTTPReqSendingCurrent b) v\<rparr>\<rparr>
      else if n = ''http_req_tls_handshaking_current''
        then a\<lparr>builtinMetrics := b\<lparr>HTTPReqTLSHandshakingCurrent := gauge_Set (HTTPReqTLSHandshakingCurrent b) v\<rparr>\<rparr>
      else if n = ''http_req_waiting_current''
        then a\<lparr>builtinMetrics := b\<lparr>HTTPReqWaitingCurrent := gauge_Set (HTTPReqWaitingCurrent b) v\<rparr>\<rparr>
      else if n = ''iteration_duration_current''
        then a\<lparr>builtinMetrics := b\<lparr>IterationDurationCurrent := gauge_Set (IterationDurationCurrent b) v\<rparr>\<rparr>
      else a)"

definition handleRate :: "PrometheusAdapter \<Rightarrow> Sample \<Rightarrow> PrometheusAdapter" where
  "handleRate a sample =
     (let n = Name (Metric sample); v = Value sample; b = builtinMetrics a in
      if n = ''checks'' then a\<lparr>builtinMetrics := b\<lparr>Checks := histogram_Observe (Checks b) v\<rparr>\<rparr>
      else if n = ''http_req_failed''
        then a\<lparr>builtinMetrics := b\<lparr>HTTPReqFailed := histogram_Observe (HTTPReqFailed b) v\<rparr>\<rparr>
      else a)"

definition handleTrend :: "PrometheusAdapter \<Rightarrow> Sample \<Rightarrow> PrometheusAdapter" where
  "handleTrend a sample =
     (let n = Name (Metric sample); v = Value sample; b = builtinMetrics a in
      if n = ''http_req_blocked''
        then a\<lparr>builtinMetrics := b\<lparr>HTTPReqBlockedCurrent := gauge_Set (HTTPReqBlockedCurrent b) v,
                                   HTTPReqBlocked := histogram_Observe (HTTPReqBlocked b) v\<rparr>\<rparr>
      else if n = ''http_req_connecting''
        then a\<lparr>builtinMetrics := b\<lparr>HTTPReqConnectingCurrent := gauge_Set (HTTPReqConnectingCurrent b) v,
                                   HTTPReqConnecting := histogram_Observe (HTTPReqConnecting b) v\<rparr>\<rparr>
      else if n = ''http_req_duration''
        then a\<lparr>builtinMetrics := b\<lparr>HTTPReqDurationCurrent := gauge_Set (HTTPReqDurationCurrent b) v,
                                   HTTPReqDuration := histogram_Observe (HTTPReqDuration b) v\<rparr>\<rparr>
      else if n = ''http_req_receiving''
        then a\<lparr>builtinMetrics := b\<lparr>HTTPReqReceivingCurrent := gauge_Set (HTTPReqReceivingCurrent b) v,
                                   HTTPReqReceiving := histogram_Observe (HTTPReqReceiving b) v\<rparr>\<rparr>
      else if n = ''http_req_sending''
        then a\<lparr>builtinMetrics := b\<lparr>HTTPReqSendingCurrent := gauge_Set (HTTPReqSendingCurrent b) v,
                                   HTTPReqSending := histogram_Observe (HTTPReqSending b) v\<rparr>\<rparr>
      else if n = ''http_req_tls_handshaking''
        then a\<lparr>builtinMetrics := b\<lparr>HTTPReqTLSHandshakingCurrent := gauge_Set (HTTPReqTLSHandshakingCurrent b) v,
                                   HTTPReqTLSHandshaking := histogram_Observe (HTTPReqTLSHandshaking b) v\<rparr>\<rparr>
      else if n = ''http_req_waiting''
        then a\<lparr>builtinMetrics := b\<lparr>HTTPReqWaitingCurrent := gauge_Set (HTTPReqWaitingCurrent b) v,
                                   HTTPReqWaiting := histogram_Observe (HTTPReqWaiting b) v\<rparr>\<rparr>
      else if n = ''iteration_duration''
        then a\<lparr>builtinMetrics := b\<lparr>IterationDurationCurrent := gauge_Set (IterationDurationCurrent b) v,
                                   IterationDuration := histogram_Observe (IterationDuration b) v\<rparr>\<rparr>
      else a)"

definition HandleSample :: "PrometheusAdapter \<Rightarrow> Sample \<Rightarrow> PrometheusAdapter" where
  "HandleSample a sample =
     (case Type (Metric sample) of
        Counter \<Rightarrow> handleCounter a sample
      | Gauge \<Rightarrow> handleGauge a sample
      | Rate \<Rightarrow> handleRate a sample
      | Trend \<Rightarrow> handleTrend a sample
      | OtherType t \<Rightarrow>
          a\<lparr>logger := logger a @ [Log WarnLevel ''Unknown metric type: %v'' [ArgMetricType (OtherType t)]]\<rparr>)"

subsection \<open>The names each handler knows, and the instrument behind a name\<close>

text \<open>The case labels of the four handlers, in the order of the source.\<close>

definition counterNames :: "string list" where
  "counterNames = [''data_received'', ''data_sent'', ''http_reqs'', ''iterations'']"

definition gaugeNames :: "string list" where
  "gaugeNames =
     [''vus'', ''vus_max'', ''http_req_blocked_current'', ''http_req_connecting_current'',
      ''http_req_duration_current'', ''http_req_receiving_current'', ''http_req_sending_current'',
      ''http_req_tls_handshaking_current'', ''http_req_waiting_current'',
      ''iteration_duration_current'']"

definition rateNames :: "string list" where
  "rateNames = [''checks'', ''http_req_failed'']"

definition trendNames :: "string list" where
  "trendNames =
     [''http_req_blocked'', ''http_req_connecting'', ''http_req_duration'', ''http_req_receiving'',
      ''http_req_sending'', ''http_req_tls_handshaking'', ''http_req_waiting'',
      ''iteration_duration'']"

text \<open>
  A sample is recognised when its type tag is one of the four and the handler of that type
  has a case for its name.
\<close>

definition recognised :: "Sample \<Rightarrow> bool" where
  "recognised sample =
     (case Type (Metric sample) of
        Counter \<Rightarrow> Name (Metric sample) \<in> set counterNames
      | Gauge \<Rightarrow> Name (Metric sample) \<in> set gaugeNames
      | Rate \<Rightarrow> Name (Metric sample) \<in> set rateNames
      | Trend \<Rightarrow> Name (Metric sample) \<in> set trendNames
      | OtherType t \<Rightarrow> False)"

text \<open>
  The instrument that \<open>NewPrometheusAdapter\<close> constructs under a metric name, read out of
  the struct: each field with the name given to its constructor call.
\<close>

definition gaugeNamed :: "string \<Rightarrow> builtinMetrics \<Rightarrow> prom_Gauge option" where
  "gaugeNamed n b =
     (if n = ''vus'' then Some (VUS b)
      else if n = ''vus_max'' then Some (VUSMax b)
      else if n = ''http_req_blocked_current'' then Some (HTTPReqBlockedCurrent b)
      else if n = ''http_req_connecting_current'' then Some (HTTPReqConnectingCurrent b)
      else if n = ''http_req_duration_current'' then Some (HTTPReqDurationCurrent b)
      else if n = ''http_req_receiving_current'' then Some (HTTPReqReceivingCurrent b)
      else if n = ''http_req_sending_current'' then Some (HTTPReqSendingCurrent b)
      else if n = ''http_req_tls_handshaking_current'' then Some (HTTPReqTLSHandshakingCurrent b)
      else if n = ''http_req_waiting_current'' then Some (HTTPReqWaitingCurrent b)
      else if n = ''iteration_duration_current'' then Some (IterationDurationCurrent b)
      else None)"

definition counterNamed :: "string \<Rightarrow> builtinMetrics \<Rightarrow> prom_Counter option" where
  "counterNamed n b =
     (if n = ''data_received'' then Some (DataReceived b)
      else if n = ''data_sent'' then Some (DataSent b)
      else if n = ''http_reqs'' then Some (HTTPReqs b)
      else if n = ''iterations'' then Some (Iterations b)
      else if n = ''dropped_iterations'' then Some (DroppedIterations b)
      else None)"

definition histogramNamed :: "string \<Rightarrow> builtinMetrics \<Rightarrow> prom_Histogram option" where
  "histogramNamed n b =
     (if n = ''http_req_blocked'' then Some (HTTPReqBlocked b)
      else if n = ''http_req_connecting'' then Some (HTTPReqConnecting b)
      else if n = ''http_req_receiving'' then Some (HTTPReqReceiving b)
      else if n = ''http_req_sending'' then Some (HTTPReqSending b)
      else if n = ''http_req_tls_handshaking'' then Some (HTTPReqTLSHandshaking b)
      else if n = ''http_req_waiting'' then Some (HTTPReqWaiting b)
      else if n = ''http_req_duration'' then Some (HTTPReqDuration b)
      else if n = ''iteration_duration'' then Some (IterationDuration b)
      else if n = ''checks'' then Some (Checks b)
      else if n = ''http_req_failed'' then Some (HTTPReqFailed b)
      else None)"

section \<open>The output extension\<close>

subsection \<open>Options and the collaborators of the host\<close>

definition defaultPort :: int where
  "defaultPort = 5665"

definition defaultPeriod :: int where
  "defaultPeriod = 10"

record options =
  Port :: int
  Host :: string
  Period :: int
  UI :: string
  Wait :: int

text \<open>\<open>url.Values\<close>: each key with its values.\<close>

type_synonym Values = "(string \<times> string list) list"

record URL =
  Scheme :: string
  Rest :: string

text \<open>
  The library calls whose outcome the code only passes on are parameters of the model:
  \<open>url.ParseQuery\<close>, the \<open>Decode\<close> of a new schema decoder (which fills the options it is
  given), \<open>net.Listen\<close> on an address, parsing the embedded page template, \<open>url.Parse\<close>,
  executing the template on the UI address (giving the page), \<open>output.NewPeriodicFlusher\<close>
  on a period, and \<open>Register\<close> of a Prometheus registry.
\<close>

record env =
  ParseQuery :: "string \<Rightarrow> error + Values"
  Decode :: "options \<Rightarrow> Values \<Rightarrow> error + options"
  Listen :: "string \<Rightarrow> error option"
  TemplateParse :: "error option"
  UrlParse :: "string \<Rightarrow> error + URL"
  TemplateExecute :: "URL \<Rightarrow> error + string"
  NewPeriodicFlusher :: "int \<Rightarrow> error option"
  Register :: "Registry \<Rightarrow> Collector \<Rightarrow> error option"

definition getopts :: "env \<Rightarrow> string \<Rightarrow> error + options" where
  "getopts e qs =
     (let opts = \<lparr>Port = defaultPort, Host = '''', Period = defaultPeriod, UI = '''', Wait = 0\<rparr> in
      if qs = '''' then Inr opts
      else
        (case ParseQuery e qs of
           Inl err \<Rightarrow> Inl err
         | Inr v \<Rightarrow>
             (case Decode e opts v of
                Inl err \<Rightarrow> Inl err
              | Inr opts' \<Rightarrow> Inr opts')))"

subsection \<open>The state of an output\<close>

datatype panic = NilDereference | SliceOutOfRange | SendOnClosedChannel | CloseOfClosedChannel

text \<open>
  A channel is the queue of the values sent and not yet received, and whether it has been
  closed. Its capacity is not represented: a send that would wait for room is taken once
  there is room.
\<close>

record 'a chan =
  queue :: "'a list"
  closed :: bool

definition send :: "'a chan \<Rightarrow> 'a \<Rightarrow> panic + 'a chan" where
  "send c x = (if closed c then Inl SendOnClosedChannel else Inr (c\<lparr>queue := queue c @ [x]\<rparr>))"

text \<open>A \<open>time.Duration\<close> is a signed 64-bit count of nanoseconds; its product wraps.\<close>

definition wrap64 :: "int \<Rightarrow> int" where
  "wrap64 i = (i + 2 ^ 63) mod 2 ^ 64 - 2 ^ 63"

definition Second :: int where
  "Second = 1000000000"

definition seconds :: "int \<Rightarrow> int" where
  "seconds n = wrap64 (wrap64 n * Second)"

record PeriodicFlusher =
  period :: int
  running :: bool

text \<open>
  What an output does to the world outside its own fields, in the order it does it:
  binding the listener, starting the two goroutines of \<open>Start\<close>, starting and stopping the
  periodic flusher, waiting on the wait group, sleeping, closing the channel.
\<close>

datatype event =
    NetListen string
  | GoServe string
  | GoMetricWorker
  | FlusherStart int
  | FlusherStop
  | WgWait
  | TimeSleep int
  | ChanClose

record Output =
  SampleBuffer :: "SampleContainer list"
  adapter :: "PrometheusAdapter option"
  flusher :: "PeriodicFlusher option"
  addr :: string
  arg :: string
  logger :: Logger
  sampleChannel :: "SampleContainer list chan"
  wg :: int
  workGroupCount :: int

record Params =
  Logger :: Logger
  ConfigArgument :: string

text \<open>
  \<open>New\<close> makes a fresh registry and hands it to \<open>NewPrometheusAdapter\<close>; it gives the
  pointer to the new output (\<open>Some\<close>) and the nil error (\<open>None\<close>).
\<close>

definition New :: "env \<Rightarrow> Params \<Rightarrow> Output option \<times> error option" where
  "New e params =
     (let reg = [];
          out = \<lparr>SampleBuffer = [],
                 adapter = fst (NewPrometheusAdapter (Register e) reg (Logger params) '''' ''''),
                 flusher = None,
                 addr = '''',
                 arg = ConfigArgument params,
                 logger = Logger params,
                 sampleChannel = \<lparr>queue = [], closed = False\<rparr>,
                 wg = 0,
                 workGroupCount = 0\<rparr>
      in (Some out, None))"

subsection \<open>Start\<close>

text \<open>Decimal printing of an integer, as the verb \<open>%d\<close> does.\<close>

function utoa :: "nat \<Rightarrow> string" where
  "utoa n = (if n < 10 then [char_of (48 + n)] else utoa (n div 10) @ [char_of (48 + n mod 10)])"
  by pat_completeness auto
termination
  by (relation "measure id") auto

definition itoa :: "int \<Rightarrow> string" where
  "itoa i = (if i < 0 then CHR ''-'' # utoa (nat (- i)) else utoa (nat i))"

text \<open>
  \<open>handler\<close> builds the page and the mux. Asking a nil adapter for its \<open>Handler()\<close> reads
  the registry through the nil pointer. The mux is the process-wide default one; the model
  covers the first \<open>Start\<close> of a process, where its two patterns are still free.
\<close>

definition handler :: "env \<Rightarrow> Output \<Rightarrow> options \<Rightarrow> panic + (error + string)" where
  "handler e out opts =
     (case TemplateParse e of
        Some err \<Rightarrow> Inr (Inl err)
      | None \<Rightarrow>
          (case adapter out of
             None \<Rightarrow> Inl NilDereference
           | Some a \<Rightarrow>
               (case UrlParse e (UI opts) of
                  Inl err \<Rightarrow> Inr (Inl err)
                | Inr u \<Rightarrow>
                    (let u' = (if Scheme u = '''' then u\<lparr>Scheme := ''https''\<rparr> else u) in
                     case TemplateExecute e u' of
                       Inl err \<Rightarrow> Inr (Inl err)
                     | Inr page \<Rightarrow> Inr (Inr page)))))"

text \<open>
  \<open>Start\<close> gives what it returns (a panic, or the error, \<open>None\<close> for nil), the output as it
  leaves it, and what it did to the outside, in order.
\<close>

definition Start :: "env \<Rightarrow> Output \<Rightarrow> (panic + error option) \<times> Output \<times> event list" where
  "Start e out =
     (case getopts e (arg out) of
        Inl err \<Rightarrow> (Inr (Some err), out, [])
      | Inr opts \<Rightarrow>
          (let o1 = out\<lparr>addr := Host opts @ '':'' @ itoa (Port opts)\<rparr> in
           case Listen e (addr o1) of
             Some err \<Rightarrow> (Inr (Some err), o1, [])
           | None \<Rightarrow>
               (case handler e o1 opts of
                  Inl p \<Rightarrow> (Inl p, o1, [NetListen (addr o1)])
                | Inr (Inl err) \<Rightarrow> (Inr (Some err), o1, [NetListen (addr o1)])
                | Inr (Inr page) \<Rightarrow>
                    (let evs = [NetListen (addr o1), GoServe page, GoMetricWorker];
                         d = seconds (Period opts) in
                     case NewPeriodicFlusher e d of
                       Some err \<Rightarrow> (Inr (Some err), o1\<lparr>flusher := None\<rparr>, evs)
                     | None \<Rightarrow>
                         (Inr None, o1\<lparr>flusher := Some \<lparr>period = d, running = True\<rparr>\<rparr>,
                          evs @ [FlusherStart d])))))"

subsection \<open>The worker goroutine of MetricWorker\<close>

text \<open>
  \<open>o.HandleSample\<close> is the method of the embedded adapter pointer. On a nil pointer the
  call itself is fine; it panics where the body reads a field of the adapter: the logger
  for an unknown type, the instruments for a name its handler knows.
\<close>

definition reads_adapter :: "Sample \<Rightarrow> bool" where
  "reads_adapter sample =
     (case Type (Metric sample) of
        Counter \<Rightarrow> Name (Metric sample) \<in> set counterNames
      | Gauge \<Rightarrow> Name (Metric sample) \<in> set gaugeNames
      | Rate \<Rightarrow> Name (Metric sample) \<in> set rateNames
      | Trend \<Rightarrow> Name (Metric sample) \<in> set trendNames
      | OtherType t \<Rightarrow> True)"

definition Output_HandleSample :: "Output \<Rightarrow> Sample \<Rightarrow> panic + Output" where
  "Output_HandleSample out sample =
     (case adapter out of
        Some a \<Rightarrow> Inr (out\<lparr>adapter := Some (HandleSample a sample)\<rparr>)
      | None \<Rightarrow> if reads_adapter sample then Inl NilDereference else Inr out)"

text \<open>The inner loop, over the samples of one container, and the outer one, over the group.\<close>

fun range_samples :: "Output \<Rightarrow> Sample list \<Rightarrow> panic + Output" where
  "range_samples out [] = Inr out"
| "range_samples out (entry # rest) =
     (case Output_HandleSample out entry of
        Inl p \<Rightarrow> Inl p
      | Inr out' \<Rightarrow> range_samples out' rest)"

fun range_sampleGroup :: "Output \<Rightarrow> SampleContainer list \<Rightarrow> panic + Output" where
  "range_sampleGroup out [] = Inr out"
| "range_sampleGroup out (sc # rest) =
     (case range_samples out sc of
        Inl p \<Rightarrow> Inl p
      | Inr out' \<Rightarrow> range_sampleGroup out' rest)"

text \<open>
  The goroutine started for one received group, run from its first statement to its
  deferred calls with nothing else running in between.
\<close>

definition MetricWorker_go :: "Output \<Rightarrow> SampleContainer list \<Rightarrow> panic + Output" where
  "MetricWorker_go out sampleGroup =
     (let o1 = out\<lparr>wg := wg out + 1, workGroupCount := workGroupCount out + 1\<rparr> in
      case range_sampleGroup o1 sampleGroup of
        Inl p \<Rightarrow> Inl p
      | Inr o2 \<Rightarrow> Inr (o2\<lparr>workGroupCount := workGroupCount o2 - 1, wg := wg o2 - 1\<rparr>))"

subsection \<open>flushMetrics\<close>

definition batchSize :: int where
  "batchSize = 10000"

text \<open>
  The slice expression \<open>s[lower:upper]\<close>, with the bounds checked against the length.
\<close>

definition slice :: "'a list \<Rightarrow> int \<Rightarrow> int \<Rightarrow> panic + 'a list" where
  "slice s lower upper =
     (if 0 \<le> lower \<and> lower \<le> upper \<and> upper \<le> int (length s)
      then Inr (take (nat (upper - lower)) (drop (nat lower) s))
      else Inl SliceOutOfRange)"

function flush_loop ::
  "'a list \<Rightarrow> int \<Rightarrow> int \<Rightarrow> 'a list chan \<Rightarrow> panic + 'a list chan"
where
  "flush_loop bufferSamples lower upper ch =
     (if lower \<le> int (length bufferSamples) - 1 then
        (case slice bufferSamples lower upper of
           Inl p \<Rightarrow> Inl p
         | Inr samplesGroup \<Rightarrow>
             (case send ch samplesGroup of
                Inl p \<Rightarrow> Inl p
              | Inr ch' \<Rightarrow>
                  flush_loop bufferSamples upper
                    (if upper + batchSize \<ge> int (length bufferSamples)
                     then int (length bufferSamples) else upper + batchSize)
                    ch'))
      else Inr ch)"
  by pat_completeness auto
termination
  by (relation "measure (\<lambda>(b, lower, upper, ch).
        2 * nat (int (length b) - lower) + (if lower < upper then 0 else 1))")
     (auto simp: slice_def batchSize_def split: if_splits)

definition flushMetrics :: "Output \<Rightarrow> panic + Output" where
  "flushMetrics out =
     (let bufferSamples = SampleBuffer out;
          o1 = out\<lparr>SampleBuffer := []\<rparr>;
          bufferSize = int (length bufferSamples);
          upper = (if batchSize > bufferSize then bufferSize else batchSize)
      in case flush_loop bufferSamples 0 upper (sampleChannel o1) of
           Inl p \<Rightarrow> Inl p
         | Inr ch \<Rightarrow>
             Inr (o1\<lparr>sampleChannel := ch,
                     logger := logger o1 @ [Log InfoLevel ''Work Group'' [ArgInt (workGroupCount o1)]]\<rparr>))"

subsection \<open>Stop\<close>



subsection \<open>The windows of a slice, as the specification words them\<close>

text \<open>
  The consecutive windows of at most \<open>n\<close> elements of a list: the first \<open>n\<close> elements,
  then the windows of what is left, until nothing is left. This follows the
  specification's description of batch splitting, not the loop of \<open>flushMetrics\<close>.
\<close>

function windows :: "nat \<Rightarrow> 'a list \<Rightarrow> 'a list list" where
  "windows n xs = (if n = 0 \<or> xs = [] then [] else take n xs # windows n (drop n xs))"
  by pat_completeness auto
termination
  by (relation "measure (\<lambda>(n, xs). length xs)") auto

subsection \<open>Concrete values, for running the definitions\<close>

definition example_output :: Output where
  "example_output =
     \<lparr>SampleBuffer = [], adapter = None, flusher = None, addr = '''', arg = '''', logger = [],
      sampleChannel = \<lparr>queue = [], closed = False\<rparr>, wg = 0, workGroupCount = 0\<rparr>"

definition example_adapter :: PrometheusAdapter where
  "example_adapter =
     \<lparr>Subsystem = '''', Namespace = '''', logger = [], registry = metrics '''' '''',
      builtinMetrics = new_builtinMetrics\<rparr>"

definition example_sample :: "string \<Rightarrow> MetricType \<Rightarrow> real \<Rightarrow> Sample" where
  "example_sample n t v = \<lparr>Metric = \<lparr>Name = n, Type = t\<rparr>, Value = v\<rparr>"

text \<open>
  Stand-ins for the library calls: a query parser that rejects a percent sign and reads a
  single \<open>key=value\<close> pair otherwise, a decoder that knows \<open>Wait=5\<close> and \<open>Wait=0\<close> only, a
  listener, a template and a URL parser that never fail, a flusher that wants a positive
  period, and a registry that refuses a collector it already holds.
\<close>

definition example_env :: env where
  "example_env =
     \<lparr>ParseQuery = (\<lambda>qs. if CHR ''%'' \<in> set qs then Inl ''invalid URL escape''
                          else Inr [(takeWhile (\<lambda>c. c \<noteq> CHR ''='') qs,
                                     [drop 1 (dropWhile (\<lambda>c. c \<noteq> CHR ''='') qs)])]),
      Decode = (\<lambda>opts v. if v = [(''Wait'', [''5''])] then Inr (opts\<lparr>Wait := 5\<rparr>)
                          else if v = [(''Wait'', [''0''])] then Inr (opts\<lparr>Wait := 0\<rparr>)
                          else Inl ''schema: invalid path''),
      Listen = (\<lambda>a. None),
      TemplateParse = None,
      UrlParse = (\<lambda>u. Inr \<lparr>Scheme = '''', Rest = u\<rparr>),
      TemplateExecute = (\<lambda>u. Inr (Scheme u @ '':'' @ Rest u)),
      NewPeriodicFlusher = (\<lambda>d. if d \<le> 0 then Some ''metric flush period should be positive'' else None),
      Register = (\<lambda>reg c. if c \<in> set reg then Some ''duplicate metrics collector registration attempted''
                           else None)\<rparr>"

text \<open>The same, with a registry that refuses the collector named \<open>http_reqs\<close>.\<close>

definition example_env_rejecting :: env where
  "example_env_rejecting =
     example_env\<lparr>Register := (\<lambda>reg c. if cName c = ''http_reqs'' then Some ''descriptor rejected''
                                         else None)\<rparr>"


definition example_buffer :: "SampleContainer list" where
  "example_buffer = replicate 25000 []"

section \<open>Batch splitting\<close>

declare windows.simps [simp del]
declare flush_loop.simps [simp del]

lemma windows_Nil: "windows n [] = []"
  by (simp add: windows.simps)

lemma windows_eq_Nil: "0 < n \<Longrightarrow> windows n xs = [] \<longleftrightarrow> xs = []"
  by (subst windows.simps) simp

lemma concat_windows: "0 < n \<Longrightarrow> concat (windows n xs) = xs"
proof (induction n xs rule: windows.induct)
  case (1 n xs)
  show ?case
  proof (cases "xs = []")
    case True
    then show ?thesis by (simp add: windows.simps)
  next
    case False
    with 1 have "concat (windows n (drop n xs)) = drop n xs" by simp
    with False 1(2) show ?thesis
      by (subst windows.simps) simp
  qed
qed

lemma map_length_windows:
  "0 < n \<Longrightarrow> map length (windows n xs) =
     replicate (length xs div n) n @ (if length xs mod n = 0 then [] else [length xs mod n])"
proof (induction n xs rule: windows.induct)
  case (1 n xs)
  show ?case
  proof (cases "xs = []")
    case True
    then show ?thesis by (simp add: windows.simps)
  next
    case False
    with 1 have IH: "map length (windows n (drop n xs)) =
       replicate (length (drop n xs) div n) n @
         (if length (drop n xs) mod n = 0 then [] else [length (drop n xs) mod n])"
      by simp
    show ?thesis
    proof (cases "n \<le> length xs")
      case True
      then have k: "length xs div n = Suc ((length xs - n) div n)"
        and m: "(length xs - n) mod n = length xs mod n"
        using 1(2) by (simp_all add: le_div_geq le_mod_geq)
      show ?thesis
        using \<open>xs \<noteq> []\<close> 1(2) True IH
        by (subst windows.simps) (simp add: k m min_def)
    next
      case False
      then have "length xs < n" by simp
      with \<open>xs \<noteq> []\<close> 1(2) show ?thesis
        by (subst windows.simps) (simp add: windows_Nil)
    qed
  qed
qed

lemma windows_length_bounds:
  "0 < n \<Longrightarrow> w \<in> set (windows n xs) \<Longrightarrow> 0 < length w \<and> length w \<le> n"
proof (induction n xs rule: windows.induct)
  case (1 n xs)
  show ?case
  proof (cases "xs = []")
    case True
    with 1(3) show ?thesis by (simp add: windows.simps)
  next
    case False
    from 1(3) False 1(2) have "w = take n xs \<or> w \<in> set (windows n (drop n xs))"
      by (subst (asm) windows.simps) simp
    then show ?thesis
    proof
      assume "w = take n xs"
      with False 1(2) show ?thesis by simp
    next
      assume "w \<in> set (windows n (drop n xs))"
      with 1(1) False 1(2) show ?thesis by simp
    qed
  qed
qed

lemma windows_butlast_full:
  "0 < n \<Longrightarrow> w \<in> set (butlast (windows n xs)) \<Longrightarrow> length w = n"
proof (induction n xs rule: windows.induct)
  case (1 n xs)
  show ?case
  proof (cases "xs = []")
    case True
    with 1(3) show ?thesis by (simp add: windows.simps)
  next
    case False
    have w: "windows n xs = take n xs # windows n (drop n xs)"
      using False 1(2) by (subst windows.simps) simp
    show ?thesis
    proof (cases "drop n xs = []")
      case True
      with 1(3) show ?thesis
        unfolding w by (simp add: windows_Nil)
    next
      case rest: False
      then have ne: "windows n (drop n xs) \<noteq> []"
        using 1(2) by (simp add: windows_eq_Nil)
      from 1(3) have "w = take n xs \<or> w \<in> set (butlast (windows n (drop n xs)))"
        unfolding w using ne by simp
      then show ?thesis
      proof
        assume "w = take n xs"
        with rest show ?thesis by simp
      next
        assume "w \<in> set (butlast (windows n (drop n xs)))"
        with 1(1) False 1(2) show ?thesis by simp
      qed
    qed
  qed
qed

lemma window_length_arith:
  "0 \<le> lower \<Longrightarrow> lower \<le> int n - 1 \<Longrightarrow> upper = min (lower + 10000) (int n) \<Longrightarrow>
   nat (upper - lower) = min (nat 10000) (n - nat lower)"
  by (cases lower) (auto simp: min_def)

lemma window_drop_arith:
  "0 \<le> lower \<Longrightarrow> lower \<le> int (length b) - 1 \<Longrightarrow>
   upper = min (lower + 10000) (int (length b)) \<Longrightarrow>
   drop (nat 10000) (drop (nat lower) b) = drop (nat upper) b"
  by (cases lower) (auto simp: min_def nat_add_distrib add.commute)

text \<open>
  The loop invariant: entered with \<open>lower\<close> inside the slice and \<open>upper\<close> one batch further
  (or at the end), the loop neither panics nor stops early, and sends the windows of what
  lies from \<open>lower\<close> on.
\<close>

lemma flush_loop_windows:
  assumes "\<not> closed ch" "0 \<le> lower" "lower \<le> int (length b)"
    "upper = min (lower + batchSize) (int (length b))"
  shows "flush_loop b lower upper ch =
           Inr (ch\<lparr>queue := queue ch @ windows (nat batchSize) (drop (nat lower) b)\<rparr>)"
  using assms
proof (induction b lower upper ch rule: flush_loop.induct)
  case (1 b lower upper ch)
  show ?case
  proof (cases "lower \<le> int (length b) - 1")
    case False
    with 1(3,4) have "drop (nat lower) b = []" by simp
    with False show ?thesis
      by (subst flush_loop.simps) (simp add: windows_Nil)
  next
    case True
    let ?g = "take (nat (upper - lower)) (drop (nat lower) b)"
    let ?ch = "ch\<lparr>queue := queue ch @ [?g]\<rparr>"
    let ?up = "if upper + batchSize \<ge> int (length b) then int (length b) else upper + batchSize"
    have sl: "slice b lower upper = Inr ?g"
      using 1(3,4,5) True by (simp add: slice_def batchSize_def)
    have sn: "send ch ?g = Inr ?ch"
      using 1(2) by (simp add: send_def)
    have up: "lower < upper" "upper \<le> int (length b)" "0 \<le> upper"
      using 1(3,4,5) True by (simp_all add: batchSize_def)
    have upeq: "?up = min (upper + batchSize) (int (length b))"
      by (auto simp: min_def)
    have cl: "\<not> closed ?ch"
      using 1(2) by simp
    have rec: "flush_loop b upper ?up ?ch =
            Inr (?ch\<lparr>queue := queue ?ch @ windows (nat batchSize) (drop (nat upper) b)\<rparr>)"
      by (rule 1(1)[OF True sl sn cl up(3) up(2) upeq])
    have len: "nat (upper - lower) = min (nat batchSize) (length (drop (nat lower) b))"
      using window_length_arith[OF 1(3) True] 1(5) by (simp add: batchSize_def)
    have dr: "drop (nat batchSize) (drop (nat lower) b) = drop (nat upper) b"
      using window_drop_arith[OF 1(3) True] 1(5) by (simp add: batchSize_def)
    have ne: "drop (nat lower) b \<noteq> []"
      using True 1(3) by simp
    have w: "windows (nat batchSize) (drop (nat lower) b) =
               ?g # windows (nat batchSize) (drop (nat upper) b)"
    proof -
      have tk: "?g = take (nat batchSize) (drop (nat lower) b)"
        unfolding len by (simp add: min_def)
      show ?thesis
        unfolding tk using ne dr by (subst windows.simps) (simp add: batchSize_def)
    qed
    show ?thesis
      using True by (subst flush_loop.simps) (simp add: sl sn rec w)
  qed
qed

lemma flushMetrics_eq:
  assumes "\<not> closed (sampleChannel out)"
  shows "flushMetrics out =
     Inr (out\<lparr>SampleBuffer := [],
              sampleChannel := (sampleChannel out)
                \<lparr>queue := queue (sampleChannel out) @ windows 10000 (SampleBuffer out)\<rparr>,
              logger := logger out @ [Log InfoLevel ''Work Group'' [ArgInt (workGroupCount out)]]\<rparr>)"
proof -
  let ?b = "SampleBuffer out"
  let ?up = "if batchSize > int (length ?b) then int (length ?b) else batchSize"
  have "?up = min (0 + batchSize) (int (length ?b))"
    by (auto simp: min_def)
  from flush_loop_windows[OF assms _ _ this]
  have "flush_loop ?b 0 ?up (sampleChannel out) =
          Inr ((sampleChannel out)\<lparr>queue := queue (sampleChannel out) @ windows (nat batchSize) ?b\<rparr>)"
    by simp
  moreover have "nat batchSize = 10000"
    by (simp add: batchSize_def)
  ultimately show ?thesis
    by (simp add: flushMetrics_def Let_def)
qed

lemma map_length_windows_25000:
  assumes "length xs = 25000"
  shows "map length (windows 10000 xs) = [10000, 10000, 5000]"
proof -
  have "replicate (25000 div 10000) (10000::nat) = [10000, 10000]"
    by (simp add: numeral_2_eq_2)
  then show ?thesis
    using assms by (simp add: map_length_windows)
qed

text \<open>
  Claim C1. With the dispatch channel open, \<open>flushMetrics\<close> drains the buffer and pushes
  onto the channel, behind what is already queued, exactly the consecutive windows of the
  drained slice, in order. Their concatenation is the drained slice; every window holds
  between 1 and 10000 containers and every window but the last holds exactly 10000; a
  drained slice of 25000 gives three batches of 10000, 10000 and 5000; an empty one gives
  no batch.
\<close>

theorem flushMetrics_batches:
  assumes "\<not> closed (sampleChannel out)"
  shows "flushMetrics out =
           Inr (out\<lparr>SampleBuffer := [],
                    sampleChannel := (sampleChannel out)
                      \<lparr>queue := queue (sampleChannel out) @ windows 10000 (SampleBuffer out)\<rparr>,
                    logger := logger out @ [Log InfoLevel ''Work Group'' [ArgInt (workGroupCount out)]]\<rparr>)
       \<and> concat (windows 10000 (SampleBuffer out)) = SampleBuffer out
       \<and> (\<forall>w \<in> set (windows 10000 (SampleBuffer out)). 0 < length w \<and> length w \<le> 10000)
       \<and> (\<forall>w \<in> set (butlast (windows 10000 (SampleBuffer out))). length w = 10000)
       \<and> (length (SampleBuffer out) = 25000 \<longrightarrow>
            map length (windows 10000 (SampleBuffer out)) = [10000, 10000, 5000])
       \<and> (SampleBuffer out = [] \<longrightarrow> windows 10000 (SampleBuffer out) = [])"
proof (intro conjI)
  have pos: "0 < (10000::nat)" by simp
  show "flushMetrics out =
           Inr (out\<lparr>SampleBuffer := [],
                    sampleChannel := (sampleChannel out)
                      \<lparr>queue := queue (sampleChannel out) @ windows 10000 (SampleBuffer out)\<rparr>,
                    logger := logger out @ [Log InfoLevel ''Work Group'' [ArgInt (workGroupCount out)]]\<rparr>)"
    by (rule flushMetrics_eq[OF assms])
  show "concat (windows 10000 (SampleBuffer out)) = SampleBuffer out"
    by (simp add: concat_windows)
  show "\<forall>w \<in> set (windows 10000 (SampleBuffer out)). 0 < length w \<and> length w \<le> 10000"
    using windows_length_bounds[OF pos] by blast
  show "\<forall>w \<in> set (butlast (windows 10000 (SampleBuffer out))). length w = 10000"
    using windows_butlast_full[OF pos] by blast
  show "length (SampleBuffer out) = 25000 \<longrightarrow>
            map length (windows 10000 (SampleBuffer out)) = [10000, 10000, 5000]"
    by (simp add: map_length_windows_25000)
  show "SampleBuffer out = [] \<longrightarrow> windows 10000 (SampleBuffer out) = []"
    by (simp add: windows_Nil)
qed

theorem flushMetrics_batches_witness:
  "flushMetrics (example_output\<lparr>SampleBuffer := example_buffer\<rparr>) =
     Inr (example_output\<lparr>sampleChannel :=
            \<lparr>queue = windows 10000 example_buffer, closed = False\<rparr>,
          logger := [Log InfoLevel ''Work Group'' [ArgInt 0]]\<rparr>)
   \<and> concat (windows 10000 example_buffer) = example_buffer
   \<and> map length (windows 10000 example_buffer) = [10000, 10000, 5000]"
proof -
  have l: "length example_buffer = 25000"
    unfolding example_buffer_def by (rule length_replicate)
  show ?thesis
    using flushMetrics_batches[of "example_output\<lparr>SampleBuffer := example_buffer\<rparr>"] l
    by (simp add: example_output_def)
qed


section \<open>Counters accumulate\<close>







section \<open>One worker on one batch\<close>

lemma range_samples_adapter:
  "adapter out = Some a \<Longrightarrow>
     range_samples out ss = Inr (out\<lparr>adapter := Some (foldl HandleSample a ss)\<rparr>)"
  by (induction ss arbitrary: out a) (simp_all add: Output_HandleSample_def)

lemma range_sampleGroup_adapter:
  "adapter out = Some a \<Longrightarrow>
     range_sampleGroup out g = Inr (out\<lparr>adapter := Some (foldl HandleSample a (concat g))\<rparr>)"
  by (induction g arbitrary: out a) (simp_all add: range_samples_adapter)

lemma MetricWorker_go_adapter:
  "adapter out = Some a \<Longrightarrow>
     MetricWorker_go out g = Inr (out\<lparr>adapter := Some (foldl HandleSample a (concat g))\<rparr>)"
  by (simp add: MetricWorker_go_def Let_def range_sampleGroup_adapter)

section \<open>Gauges keep the last value\<close>

lemma HandleSample_gauge_step:
  assumes "n \<in> set gaugeNames" "Name (Metric s) = n" "Type (Metric s) = Gauge"
  shows "gaugeNamed n (builtinMetrics (HandleSample a s)) = Some (Value s)"
  using assms
  by (auto simp: gaugeNames_def HandleSample_def handleGauge_def gaugeNamed_def gauge_Set_def)

lemma foldl_HandleSample_gauge_last:
  assumes "n \<in> set gaugeNames" "ss \<noteq> []"
    "\<forall>s \<in> set ss. Type (Metric s) = Gauge \<and> Name (Metric s) = n"
  shows "gaugeNamed n (builtinMetrics (foldl HandleSample a ss)) = Some (Value (last ss))"
proof -
  from assms(2) obtain ss' s where ss: "ss = ss' @ [s]"
    by (cases ss rule: rev_cases) auto
  with assms(3) have "Type (Metric s) = Gauge" "Name (Metric s) = n"
    by auto
  from HandleSample_gauge_step[OF assms(1) this(2) this(1)] show ?thesis
    by (simp add: ss)
qed

text \<open>
  Claim C3. One worker, given a batch whose samples (the containers' samples, in order)
  are a non-empty sequence of Gauge samples all of one name that the Gauge handler has a
  case for, finishes without a panic and leaves in the gauge constructed under that name
  the value of the last sample of the sequence, whatever the earlier values were.
\<close>

theorem gauge_last_wins:
  assumes "n \<in> set gaugeNames" "adapter out = Some a" "concat sampleGroup \<noteq> []"
    "\<forall>s \<in> set (concat sampleGroup). Type (Metric s) = Gauge \<and> Name (Metric s) = n"
  shows "\<exists>a'. MetricWorker_go out sampleGroup = Inr (out\<lparr>adapter := Some a'\<rparr>)
            \<and> gaugeNamed n (builtinMetrics a') = Some (Value (last (concat sampleGroup)))"
  using MetricWorker_go_adapter[OF assms(2)] foldl_HandleSample_gauge_last[OF assms(1,3,4)]
  by blast

theorem gauge_last_wins_witness:
  "\<exists>a'. MetricWorker_go (example_output\<lparr>adapter := Some example_adapter\<rparr>)
           [[example_sample ''vus'' Gauge 3, example_sample ''vus'' Gauge 7],
            [example_sample ''vus'' Gauge 5]] =
         Inr (example_output\<lparr>adapter := Some a'\<rparr>)
       \<and> gaugeNamed ''vus'' (builtinMetrics a') = Some 5"
  using gauge_last_wins[of "''vus''" "example_output\<lparr>adapter := Some example_adapter\<rparr>"
          example_adapter
          "[[example_sample ''vus'' Gauge 3, example_sample ''vus'' Gauge 7],
            [example_sample ''vus'' Gauge 5]]"]
  by (simp add: gaugeNames_def example_sample_def)

section \<open>Trends update a gauge and a histogram\<close>

lemma trend_gauge_known:
  "n \<in> set trendNames \<Longrightarrow> \<exists>g h. gaugeNamed (n @ ''_current'') b = Some g \<and> histogramNamed n b = Some h"
  by (auto simp: trendNames_def gaugeNamed_def histogramNamed_def)

lemma trendNames_cases:
  "n \<in> set trendNames \<Longrightarrow>
     n = ''http_req_blocked'' \<or> n = ''http_req_connecting'' \<or> n = ''http_req_duration'' \<or>
     n = ''http_req_receiving'' \<or> n = ''http_req_sending'' \<or> n = ''http_req_tls_handshaking'' \<or>
     n = ''http_req_waiting'' \<or> n = ''iteration_duration''"
  by (simp add: trendNames_def)

lemma HandleSample_trend_step:
  assumes "n \<in> set trendNames" "Name (Metric s) = n" "Type (Metric s) = Trend"
    "histogramNamed n (builtinMetrics a) = Some h"
  shows "gaugeNamed (n @ ''_current'') (builtinMetrics (HandleSample a s)) = Some (Value s)"
    and "histogramNamed n (builtinMetrics (HandleSample a s)) = Some (h @ [Value s])"
  using trendNames_cases[OF assms(1)] assms(2-4)
  by (elim disjE;
      simp add: HandleSample_def handleTrend_def Let_def gaugeNamed_def histogramNamed_def
        gauge_Set_def histogram_Observe_def)+

lemma HandleSample_trend_frame_gauge:
  assumes "n \<in> set trendNames" "Name (Metric s) = n" "Type (Metric s) = Trend"
    "m \<noteq> n @ ''_current''"
  shows "gaugeNamed m (builtinMetrics (HandleSample a s)) = gaugeNamed m (builtinMetrics a)"
  using trendNames_cases[OF assms(1)] assms(2-4)
  by (elim disjE; simp add: HandleSample_def handleTrend_def Let_def gaugeNamed_def)

lemma HandleSample_trend_frame_histogram:
  assumes "n \<in> set trendNames" "Name (Metric s) = n" "Type (Metric s) = Trend" "m \<noteq> n"
  shows "histogramNamed m (builtinMetrics (HandleSample a s)) = histogramNamed m (builtinMetrics a)"
  using trendNames_cases[OF assms(1)] assms(2-4)
  by (elim disjE; simp add: HandleSample_def handleTrend_def Let_def histogramNamed_def)

lemma HandleSample_trend_frame:
  assumes "n \<in> set trendNames" "Name (Metric s) = n" "Type (Metric s) = Trend"
  shows "counterNamed m (builtinMetrics (HandleSample a s)) = counterNamed m (builtinMetrics a)"
    and "HTTPReqFailedCurrent (builtinMetrics (HandleSample a s)) = HTTPReqFailedCurrent (builtinMetrics a)"
    and "PrometheusAdapter.logger (HandleSample a s) = PrometheusAdapter.logger a"
    and "registry (HandleSample a s) = registry a"
  using trendNames_cases[OF assms(1)] assms(2-3)
  by (elim disjE; simp add: HandleSample_def handleTrend_def Let_def counterNamed_def)+

lemma foldl_HandleSample_trend:
  assumes "n \<in> set trendNames"
    "\<forall>s \<in> set ss. Type (Metric s) = Trend \<and> Name (Metric s) = n"
    "histogramNamed n (builtinMetrics a) = Some h"
  shows "histogramNamed n (builtinMetrics (foldl HandleSample a ss)) = Some (h @ map Value ss)
       \<and> (ss \<noteq> [] \<longrightarrow>
            gaugeNamed (n @ ''_current'') (builtinMetrics (foldl HandleSample a ss)) =
              Some (Value (last ss)))"
  using assms(2)
proof (induction ss rule: rev_induct)
  case Nil
  show ?case using assms(3) by simp
next
  case (snoc s ss)
  then have s: "Name (Metric s) = n" "Type (Metric s) = Trend"
    and IH: "histogramNamed n (builtinMetrics (foldl HandleSample a ss)) = Some (h @ map Value ss)"
    by simp_all
  from HandleSample_trend_step[OF assms(1) s IH] show ?case
    by simp
qed

text \<open>
  Claim C4. For a Trend sample whose name the Trend handler has a case for, \<open>HandleSample\<close>
  makes exactly two updates: the gauge constructed under that name followed by \<open>_current\<close>
  is set to the sample's value, and the value is appended to the observations of the
  histogram constructed under that name; every other gauge, histogram and counter, the
  logger and the registry stay as they were. After a sequence of such samples of one name
  the histogram has gained one observation per sample, in order, and, when the sequence
  is not empty, the gauge holds the last value. One \<open>http_req_duration\<close> sample of value
  120.5 on a new adapter gives \<open>http_req_duration_current\<close> = 120.5 and the single
  observation 120.5.
\<close>

theorem trend_gauge_and_histogram:
  assumes "n \<in> set trendNames" "Name (Metric s) = n" "Type (Metric s) = Trend"
    "\<forall>s' \<in> set ss. Type (Metric s') = Trend \<and> Name (Metric s') = n"
  shows "(\<exists>h. histogramNamed n (builtinMetrics a) = Some h
            \<and> histogramNamed n (builtinMetrics (HandleSample a s)) = Some (h @ [Value s])
            \<and> histogramNamed n (builtinMetrics (foldl HandleSample a ss)) = Some (h @ map Value ss)
            \<and> length (the (histogramNamed n (builtinMetrics (foldl HandleSample a ss)))) =
                length h + length ss)
       \<and> gaugeNamed (n @ ''_current'') (builtinMetrics (HandleSample a s)) = Some (Value s)
       \<and> (ss \<noteq> [] \<longrightarrow>
            gaugeNamed (n @ ''_current'') (builtinMetrics (foldl HandleSample a ss)) =
              Some (Value (last ss)))
       \<and> (\<forall>m. m \<noteq> n @ ''_current'' \<longrightarrow>
            gaugeNamed m (builtinMetrics (HandleSample a s)) = gaugeNamed m (builtinMetrics a))
       \<and> (\<forall>m. m \<noteq> n \<longrightarrow>
            histogramNamed m (builtinMetrics (HandleSample a s)) = histogramNamed m (builtinMetrics a))
       \<and> (\<forall>m. counterNamed m (builtinMetrics (HandleSample a s)) = counterNamed m (builtinMetrics a))
       \<and> HTTPReqFailedCurrent (builtinMetrics (HandleSample a s)) =
            HTTPReqFailedCurrent (builtinMetrics a)
       \<and> PrometheusAdapter.logger (HandleSample a s) = PrometheusAdapter.logger a
       \<and> registry (HandleSample a s) = registry a
       \<and> (n = ''http_req_duration'' \<and> Value s = 120.5 \<and> builtinMetrics a = new_builtinMetrics \<longrightarrow>
            HTTPReqDurationCurrent (builtinMetrics (HandleSample a s)) = 120.5
            \<and> HTTPReqDuration (builtinMetrics (HandleSample a s)) = [120.5])"
proof -
  from trend_gauge_known[OF assms(1)] obtain h where h: "histogramNamed n (builtinMetrics a) = Some h"
    by blast
  note step = HandleSample_trend_step[OF assms(1-3) h]
  note seq = foldl_HandleSample_trend[OF assms(1,4) h]
  note frame = HandleSample_trend_frame[OF assms(1-3)]
  note frame_g = HandleSample_trend_frame_gauge[OF assms(1-3)]
  note frame_h = HandleSample_trend_frame_histogram[OF assms(1-3)]
  have first: "\<exists>h. histogramNamed n (builtinMetrics a) = Some h
            \<and> histogramNamed n (builtinMetrics (HandleSample a s)) = Some (h @ [Value s])
            \<and> histogramNamed n (builtinMetrics (foldl HandleSample a ss)) = Some (h @ map Value ss)
            \<and> length (the (histogramNamed n (builtinMetrics (foldl HandleSample a ss)))) =
                length h + length ss"
    using h step(2) seq by simp
  have particular: "n = ''http_req_duration'' \<and> Value s = 120.5 \<and> builtinMetrics a = new_builtinMetrics \<longrightarrow>
            HTTPReqDurationCurrent (builtinMetrics (HandleSample a s)) = 120.5
            \<and> HTTPReqDuration (builtinMetrics (HandleSample a s)) = [120.5]"
  proof
    assume p: "n = ''http_req_duration'' \<and> Value s = 120.5 \<and> builtinMetrics a = new_builtinMetrics"
    then have "h = []"
      using h by (simp add: histogramNamed_def new_builtinMetrics_def)
    with step p show "HTTPReqDurationCurrent (builtinMetrics (HandleSample a s)) = 120.5
            \<and> HTTPReqDuration (builtinMetrics (HandleSample a s)) = [120.5]"
      by (simp add: histogramNamed_def gaugeNamed_def)
  qed
  show ?thesis
    using first step(1) seq frame frame_g frame_h particular by blast
qed

theorem trend_gauge_and_histogram_witness:
  "HTTPReqDurationCurrent
     (builtinMetrics (HandleSample example_adapter (example_sample ''http_req_duration'' Trend 120.5)))
     = 120.5
   \<and> HTTPReqDuration
     (builtinMetrics (HandleSample example_adapter (example_sample ''http_req_duration'' Trend 120.5)))
     = [120.5]
   \<and> gaugeNamed ''http_req_duration_current''
       (builtinMetrics (foldl HandleSample example_adapter
          [example_sample ''http_req_duration'' Trend 3, example_sample ''http_req_duration'' Trend 4]))
     = Some 4"
  using trend_gauge_and_histogram[of "''http_req_duration''"
          "example_sample ''http_req_duration'' Trend 120.5"
          "[example_sample ''http_req_duration'' Trend 3, example_sample ''http_req_duration'' Trend 4]"
          example_adapter]
  by (simp add: trendNames_def example_sample_def example_adapter_def)

section \<open>Samples that are dropped\<close>

lemma HandleSample_unknown_name:
  assumes "\<not> recognised s" "\<forall>t. Type (Metric s) \<noteq> OtherType t"
  shows "HandleSample a s = a"
proof (cases "Type (Metric s)")
  case Counter
  with assms(1) show ?thesis
    by (simp add: recognised_def counterNames_def HandleSample_def handleCounter_def)
next
  case Gauge
  with assms(1) show ?thesis
    by (simp add: recognised_def gaugeNames_def HandleSample_def handleGauge_def)
next
  case Trend
  with assms(1) show ?thesis
    by (simp add: recognised_def trendNames_def HandleSample_def handleTrend_def)
next
  case Rate
  with assms(1) show ?thesis
    by (simp add: recognised_def rateNames_def HandleSample_def handleRate_def)
next
  case (OtherType t')
  with assms(2) show ?thesis by blast
qed

lemma HandleSample_unknown_type:
  assumes "Type (Metric s) = OtherType t"
  shows "HandleSample a s =
           a\<lparr>PrometheusAdapter.logger := PrometheusAdapter.logger a @
                [Log WarnLevel ''Unknown metric type: %v'' [ArgMetricType (OtherType t)]]\<rparr>"
  using assms by (simp add: HandleSample_def)

lemma HandleSample_dropped_instruments:
  assumes "\<not> recognised s"
  shows "builtinMetrics (HandleSample a s) = builtinMetrics a"
    and "registry (HandleSample a s) = registry a"
    and "Subsystem (HandleSample a s) = Subsystem a"
    and "Namespace (HandleSample a s) = Namespace a"
proof -
  have "builtinMetrics (HandleSample a s) = builtinMetrics a \<and> registry (HandleSample a s) = registry a
      \<and> Subsystem (HandleSample a s) = Subsystem a \<and> Namespace (HandleSample a s) = Namespace a"
  proof (cases "\<exists>t. Type (Metric s) = OtherType t")
    case True
    then obtain t where "Type (Metric s) = OtherType t" by blast
    from HandleSample_unknown_type[OF this] show ?thesis by simp
  next
    case False
    then have "HandleSample a s = a"
      by (intro HandleSample_unknown_name[OF assms]) blast
    then show ?thesis by simp
  qed
  then show "builtinMetrics (HandleSample a s) = builtinMetrics a"
    and "registry (HandleSample a s) = registry a"
    and "Subsystem (HandleSample a s) = Subsystem a"
    and "Namespace (HandleSample a s) = Namespace a"
    by simp_all
qed

text \<open>
  Claim C5. For a sample whose type tag is none of Counter, Gauge, Rate and Trend, or
  whose name its type's handler has no case for, \<open>HandleSample\<close> leaves the whole struct of
  instruments as it was (no counter added to, no gauge set, no observation recorded),
  and the registry and the adapter's namespace and subsystem with it; called by the worker
  on an output with an adapter, it returns without a panic.
\<close>

theorem unrecognised_sample_changes_no_instrument:
  assumes "\<not> recognised s"
  shows "builtinMetrics (HandleSample a s) = builtinMetrics a
       \<and> registry (HandleSample a s) = registry a
       \<and> Subsystem (HandleSample a s) = Subsystem a
       \<and> Namespace (HandleSample a s) = Namespace a
       \<and> (adapter out = Some a \<longrightarrow>
            (\<exists>a'. Output_HandleSample out s = Inr (out\<lparr>adapter := Some a'\<rparr>)
                 \<and> builtinMetrics a' = builtinMetrics a))"
  using HandleSample_dropped_instruments[OF assms, of a]
  by (auto simp: Output_HandleSample_def)

theorem unrecognised_sample_changes_no_instrument_witness:
  "builtinMetrics (HandleSample example_adapter (example_sample ''dropped_iterations'' Counter 2)) =
     builtinMetrics example_adapter
   \<and> builtinMetrics (HandleSample example_adapter (example_sample ''vus'' (OtherType 9) 2)) =
     builtinMetrics example_adapter
   \<and> (\<exists>a'. Output_HandleSample (example_output\<lparr>adapter := Some example_adapter\<rparr>)
              (example_sample ''vus'' (OtherType 9) 2) =
            Inr (example_output\<lparr>adapter := Some a'\<rparr>)
          \<and> builtinMetrics a' = builtinMetrics example_adapter)"
  using unrecognised_sample_changes_no_instrument[of "example_sample ''dropped_iterations'' Counter 2"
          example_adapter "example_output\<lparr>adapter := Some example_adapter\<rparr>"]
    unrecognised_sample_changes_no_instrument[of "example_sample ''vus'' (OtherType 9) 2"
          example_adapter "example_output\<lparr>adapter := Some example_adapter\<rparr>"]
  by (simp add: recognised_def example_sample_def counterNames_def)

text \<open>
  Claim C6, as stated, fails: a Counter sample named \<open>foo\<close> is not recognised, and
  \<open>HandleSample\<close> drops it without writing anything to the logger.
\<close>

theorem unknown_name_drop_is_not_logged:
  "\<not> recognised (example_sample ''foo'' Counter 1)
   \<and> PrometheusAdapter.logger example_adapter = []
   \<and> PrometheusAdapter.logger (HandleSample example_adapter (example_sample ''foo'' Counter 1)) = []"
  by (simp add: recognised_def example_sample_def counterNames_def example_adapter_def
        HandleSample_def handleCounter_def)

text \<open>
  Claim C6, amended. A sample whose type tag is none of the four is dropped with exactly
  one new log entry, at warning level; a sample of one of the four types whose name its
  handler has no case for is dropped with nothing logged and the adapter unchanged. In
  both cases the worker's loop goes on with the samples that follow and ends without a
  panic.
\<close>

theorem dropped_sample_logging:
  assumes "\<not> recognised s"
  shows "(\<forall>t. Type (Metric s) = OtherType t \<longrightarrow>
            HandleSample a s =
              a\<lparr>PrometheusAdapter.logger := PrometheusAdapter.logger a @
                   [Log WarnLevel ''Unknown metric type: %v'' [ArgMetricType (OtherType t)]]\<rparr>)
       \<and> ((\<forall>t. Type (Metric s) \<noteq> OtherType t) \<longrightarrow> HandleSample a s = a)
       \<and> (adapter out = Some a \<longrightarrow>
            range_samples out (s # rest) =
              Inr (out\<lparr>adapter := Some (foldl HandleSample (HandleSample a s) rest)\<rparr>))"
proof (intro conjI allI impI)
  fix t assume "Type (Metric s) = OtherType t"
  then show "HandleSample a s =
              a\<lparr>PrometheusAdapter.logger := PrometheusAdapter.logger a @
                   [Log WarnLevel ''Unknown metric type: %v'' [ArgMetricType (OtherType t)]]\<rparr>"
    by (rule HandleSample_unknown_type)
next
  assume "\<forall>t. Type (Metric s) \<noteq> OtherType t"
  then show "HandleSample a s = a"
    by (rule HandleSample_unknown_name[OF assms])
next
  assume "adapter out = Some a"
  from range_samples_adapter[OF this, of "s # rest"]
  show "range_samples out (s # rest) =
              Inr (out\<lparr>adapter := Some (foldl HandleSample (HandleSample a s) rest)\<rparr>)"
    by simp
qed

theorem dropped_sample_logging_witness:
  "HandleSample example_adapter (example_sample ''vus'' (OtherType 9) 2) =
     example_adapter\<lparr>PrometheusAdapter.logger :=
       [Log WarnLevel ''Unknown metric type: %v'' [ArgMetricType (OtherType 9)]]\<rparr>
   \<and> HandleSample example_adapter (example_sample ''foo'' Counter 1) = example_adapter
   \<and> range_samples (example_output\<lparr>adapter := Some example_adapter\<rparr>)
       [example_sample ''foo'' Counter 1, example_sample ''vus'' Gauge 4] =
     Inr (example_output\<lparr>adapter := Some (foldl HandleSample
            (HandleSample example_adapter (example_sample ''foo'' Counter 1))
            [example_sample ''vus'' Gauge 4])\<rparr>)"
proof -
  have l: "PrometheusAdapter.logger example_adapter = []"
    by (simp add: example_adapter_def)
  have t1: "Type (Metric (example_sample ''vus'' (OtherType 9) 2)) = OtherType 9"
    and t2: "\<forall>t. Type (Metric (example_sample ''foo'' Counter 1)) \<noteq> OtherType t"
    and r1: "\<not> recognised (example_sample ''vus'' (OtherType 9) 2)"
    and r2: "\<not> recognised (example_sample ''foo'' Counter 1)"
    and ad: "adapter (example_output\<lparr>adapter := Some example_adapter\<rparr>) = Some example_adapter"
    by (simp_all add: recognised_def example_sample_def counterNames_def)
  note th1 = dropped_sample_logging[OF r1, of example_adapter]
  note th2 = dropped_sample_logging[OF r2, of example_adapter
      "example_output\<lparr>adapter := Some example_adapter\<rparr>" "[example_sample ''vus'' Gauge 4]"]
  have "HandleSample example_adapter (example_sample ''vus'' (OtherType 9) 2) =
     example_adapter\<lparr>PrometheusAdapter.logger :=
       [Log WarnLevel ''Unknown metric type: %v'' [ArgMetricType (OtherType 9)]]\<rparr>"
    using th1[THEN conjunct1, THEN spec, THEN mp, OF t1] l by simp
  moreover note th2[THEN conjunct2, THEN conjunct1, THEN mp, OF t2]
  moreover note th2[THEN conjunct2, THEN conjunct2, THEN mp, OF ad]
  ultimately show ?thesis by simp
qed

section \<open>Options, Start and Stop\<close>

lemma getopts_empty:
  "getopts e '''' = Inr \<lparr>Port = 5665, Host = '''', Period = 10, UI = '''', Wait = 0\<rparr>"
  by (simp add: getopts_def defaultPort_def defaultPeriod_def)

lemma getopts_parse_error:
  "qs \<noteq> '''' \<Longrightarrow> ParseQuery e qs = Inl err \<Longrightarrow> getopts e qs = Inl err"
  by (simp add: getopts_def)

lemma getopts_decode_error:
  "qs \<noteq> '''' \<Longrightarrow> ParseQuery e qs = Inr v \<Longrightarrow>
   Decode e \<lparr>Port = 5665, Host = '''', Period = 10, UI = '''', Wait = 0\<rparr> v = Inl err \<Longrightarrow>
   getopts e qs = Inl err"
  by (simp add: getopts_def defaultPort_def defaultPeriod_def)

lemma Start_getopts_error:
  "getopts e (arg out) = Inl err \<Longrightarrow> Start e out = (Inr (Some err), out, [])"
  by (simp add: Start_def)

text \<open>
  Claim C7. On the empty configuration string \<open>getopts\<close> gives the options with port
  5665, empty host and period 10 (and empty UI, wait 0), and no error. On a string it
  parses (any non-empty one; the empty string is never handed to the parser) for which the
  query parser fails, or the parser succeeds and the decoder fails on the defaults,
  \<open>getopts\<close> gives that error and no options; and whenever \<open>getopts\<close> gives an error on the
  output's argument, \<open>Start\<close> returns that error with the output untouched and nothing done:
  no listener, no goroutine, no flusher.
\<close>

theorem getopts_defaults_and_errors:
  "getopts e '''' = Inr \<lparr>Port = 5665, Host = '''', Period = 10, UI = '''', Wait = 0\<rparr>
   \<and> (qs \<noteq> '''' \<and> ParseQuery e qs = Inl err \<longrightarrow> getopts e qs = Inl err)
   \<and> (qs \<noteq> '''' \<and> ParseQuery e qs = Inr v
        \<and> Decode e \<lparr>Port = 5665, Host = '''', Period = 10, UI = '''', Wait = 0\<rparr> v = Inl err \<longrightarrow>
          getopts e qs = Inl err)
   \<and> (getopts e (arg out) = Inl err \<longrightarrow> Start e out = (Inr (Some err), out, []))"
  using getopts_empty getopts_parse_error getopts_decode_error Start_getopts_error
  by blast

theorem getopts_defaults_and_errors_witness:
  "getopts example_env '''' = Inr \<lparr>Port = 5665, Host = '''', Period = 10, UI = '''', Wait = 0\<rparr>
   \<and> getopts example_env ''%'' = Inl ''invalid URL escape''
   \<and> getopts example_env ''Port=abc'' = Inl ''schema: invalid path''
   \<and> Start example_env (example_output\<lparr>arg := ''Port=abc''\<rparr>) =
       (Inr (Some ''schema: invalid path''), example_output\<lparr>arg := ''Port=abc''\<rparr>, [])"
proof -
  have p1: "''%'' \<noteq> '''' \<and> ParseQuery example_env ''%'' = Inl ''invalid URL escape''"
    by (simp add: example_env_def)
  have p2: "''Port=abc'' \<noteq> '''' \<and> ParseQuery example_env ''Port=abc'' = Inr [(''Port'', [''abc''])]
        \<and> Decode example_env \<lparr>Port = 5665, Host = '''', Period = 10, UI = '''', Wait = 0\<rparr>
             [(''Port'', [''abc''])] = Inl ''schema: invalid path''"
    by (simp add: example_env_def)
  note t1 = getopts_defaults_and_errors[of example_env "''%''" "''invalid URL escape''"]
  note t2 = getopts_defaults_and_errors[of example_env "''Port=abc''" "''schema: invalid path''"
              "[(''Port'', [''abc''])]" "example_output\<lparr>arg := ''Port=abc''\<rparr>"]
  have g: "getopts example_env ''Port=abc'' = Inl ''schema: invalid path''"
    using t2[THEN conjunct2, THEN conjunct2, THEN conjunct1] p2 by blast
  have a: "arg (example_output\<lparr>arg := ''Port=abc''\<rparr>) = ''Port=abc''"
    by simp
  have "Start example_env (example_output\<lparr>arg := ''Port=abc''\<rparr>) =
       (Inr (Some ''schema: invalid path''), example_output\<lparr>arg := ''Port=abc''\<rparr>, [])"
    using t2[THEN conjunct2, THEN conjunct2, THEN conjunct2] g unfolding a by blast
  moreover have "getopts example_env ''%'' = Inl ''invalid URL escape''"
    using t1[THEN conjunct2, THEN conjunct1] p1 by blast
  ultimately show ?thesis
    using t1[THEN conjunct1] g by blast
qed








section \<open>Construction when a registration fails\<close>

lemma register_loop_first_failure:
  assumes "k < length ms"
    "\<forall>i<k. R (reg @ take i ms) (ms ! i) = None"
    "R (reg @ take k ms) (ms ! k) = Some err"
  shows "register_loop R reg ms = (reg @ take k ms, Some err)"
  using assms
proof (induction ms arbitrary: reg k)
  case Nil
  then show ?case by simp
next
  case (Cons c rest)
  show ?case
  proof (cases k)
    case 0
    with Cons.prems(3) show ?thesis by simp
  next
    case (Suc k')
    with Cons.prems(2) have c: "R reg c = None"
      by (metis append_Nil2 nth_Cons_0 take_0 zero_less_Suc)
    have k': "k' < length rest"
      using Cons.prems(1) Suc by simp
    have ok: "\<forall>i<k'. R ((reg @ [c]) @ take i rest) (rest ! i) = None"
    proof (intro allI impI)
      fix i assume "i < k'"
      then have "Suc i < k" using Suc by simp
      with Cons.prems(2) have "R (reg @ take (Suc i) (c # rest)) ((c # rest) ! Suc i) = None"
        by blast
      then show "R ((reg @ [c]) @ take i rest) (rest ! i) = None" by simp
    qed
    have bad: "R ((reg @ [c]) @ take k' rest) (rest ! k') = Some err"
      using Cons.prems(3) Suc by simp
    from Cons.IH[OF k' ok bad] c Suc show ?thesis by simp
  qed
qed

lemma New_result:
  "New e params =
     (Some \<lparr>SampleBuffer = [],
            adapter = fst (NewPrometheusAdapter (Register e) [] (Logger params) '''' ''''),
            flusher = None, addr = '''', arg = ConfigArgument params, logger = Logger params,
            sampleChannel = \<lparr>queue = [], closed = False\<rparr>, wg = 0, workGroupCount = 0\<rparr>,
      None)"
  by (simp add: New_def Let_def)

text \<open>
  Claim C9. If the registry accepts the first \<open>k\<close> collectors of the list and refuses the
  next one, \<open>NewPrometheusAdapter\<close> returns the nil adapter and leaves those \<open>k\<close> collectors
  in the registry it was handed. \<open>New\<close>, which hands it a fresh registry with empty
  namespace and subsystem, then still returns an output (not nil) and the nil error, and
  the adapter embedded in that output is nil.
\<close>

theorem failed_registration_gives_nil_adapter:
  assumes "k < length (metrics ns sub)"
    "\<forall>i<k. R (reg @ take i (metrics ns sub)) (metrics ns sub ! i) = None"
    "R (reg @ take k (metrics ns sub)) (metrics ns sub ! k) = Some err"
  shows "NewPrometheusAdapter R reg lg ns sub = (None, reg @ take k (metrics ns sub))
       \<and> (R = Register e \<and> reg = [] \<and> ns = '''' \<and> sub = '''' \<longrightarrow>
            New e params =
              (Some \<lparr>SampleBuffer = [], adapter = None, flusher = None, addr = '''',
                     arg = ConfigArgument params, logger = Logger params,
                     sampleChannel = \<lparr>queue = [], closed = False\<rparr>, wg = 0,
                     workGroupCount = 0\<rparr>,
               None))"
proof -
  have n: "\<And>lg. NewPrometheusAdapter R reg lg ns sub = (None, reg @ take k (metrics ns sub))"
    using register_loop_first_failure[OF assms] by (simp add: NewPrometheusAdapter_def)
  show ?thesis
  proof (intro conjI impI)
    show "NewPrometheusAdapter R reg lg ns sub = (None, reg @ take k (metrics ns sub))"
      by (rule n)
    assume "R = Register e \<and> reg = [] \<and> ns = '''' \<and> sub = ''''"
    with n[of "Logger params"] show "New e params =
              (Some \<lparr>SampleBuffer = [], adapter = None, flusher = None, addr = '''',
                     arg = ConfigArgument params, logger = Logger params,
                     sampleChannel = \<lparr>queue = [], closed = False\<rparr>, wg = 0,
                     workGroupCount = 0\<rparr>,
               None)"
      by (simp add: New_result)
  qed
qed

lemma metrics_prefix_12:
  "take 12 (metrics ns sub) =
     [NewGauge ns sub ''vus'' ''Current number of active virtual users'',
      NewGauge ns sub ''vus_max'' ''Max possible number of virtual users'',
      NewGauge ns sub ''http_req_blocked_current'' ''Time spent blocked  before initiating the request'',
      NewGauge ns sub ''http_req_connecting_current'' ''Time spent establishing TCP connection'',
      NewGauge ns sub ''http_req_duration_current'' ''Total time for the request'',
      NewGauge ns sub ''http_req_receiving_current'' ''Time spent receiving response data'',
      NewGauge ns sub ''http_req_sending_current'' ''Time spent sending data'',
      NewGauge ns sub ''http_req_tls_handshaking_current'' ''Time spent handshaking TLS session'',
      NewGauge ns sub ''http_req_waiting_current'' ''Time spent waiting for response'',
      NewGauge ns sub ''iteration_duration_current'' ''The time it took to complete one full iteration'',
      NewCounter ns sub ''data_received'' ''The amount of received data'',
      NewCounter ns sub ''data_sent'' ''The amount of data sent'']"
  by (simp add: metrics_def)

lemma metrics_13th:
  "metrics ns sub ! 12 = NewCounter ns sub ''http_reqs'' ''How many HTTP requests has k6 generated, in total''"
  by (simp add: metrics_def)

lemma metrics_first_12_names:
  assumes "i < 12"
  shows "cName (metrics ns sub ! i) \<noteq> ''http_reqs''"
proof -
  have all: "\<forall>c \<in> set (take 12 (metrics ns sub)). cName c \<noteq> ''http_reqs''"
    by (simp add: metrics_prefix_12 NewGauge_def NewCounter_def)
  have len: "length (take 12 (metrics ns sub)) = 12"
    by (simp add: metrics_prefix_12)
  have "metrics ns sub ! i = take 12 (metrics ns sub) ! i"
    using assms by simp
  moreover have "take 12 (metrics ns sub) ! i \<in> set (take 12 (metrics ns sub))"
    using assms len by (intro nth_mem) simp
  ultimately show ?thesis
    using all by simp
qed

theorem failed_registration_gives_nil_adapter_witness:
  "NewPrometheusAdapter (Register example_env_rejecting) [] [] '''' '''' =
     (None, take 12 (metrics '''' ''''))
   \<and> New example_env_rejecting \<lparr>Logger = [], ConfigArgument = ''Wait=5''\<rparr> =
     (Some \<lparr>SampleBuffer = [], adapter = None, flusher = None, addr = '''',
            arg = ''Wait=5'', logger = [],
            sampleChannel = \<lparr>queue = [], closed = False\<rparr>, wg = 0, workGroupCount = 0\<rparr>,
      None)"
proof -
  let ?R = "Register example_env_rejecting"
  have R: "\<And>reg c. ?R reg c = (if cName c = ''http_reqs'' then Some ''descriptor rejected'' else None)"
    by (simp add: example_env_rejecting_def)
  have a1: "12 < length (metrics '''' '''')"
    by (simp add: metrics_def)
  have a2: "\<forall>i<12. ?R ([] @ take i (metrics '''' '''')) (metrics '''' '''' ! i) = None"
    using metrics_first_12_names by (simp add: R)
  have a3: "?R ([] @ take 12 (metrics '''' '''')) (metrics '''' '''' ! 12) = Some ''descriptor rejected''"
    by (simp add: R metrics_13th NewCounter_def)
  from failed_registration_gives_nil_adapter[OF a1 a2 a3, of "[]" example_env_rejecting
         "\<lparr>Logger = [], ConfigArgument = ''Wait=5''\<rparr>"]
  show ?thesis by simp
qed

end
